theory Spec2Isabelle
  imports Complex_Main "HOL-Library.Sublist"
begin

section \<open>Strings\<close>

text \<open>
  Where only the order and the equality of characters matter, a Python string is a
  \<^typ>\<open>string\<close>. The escalation detector depends on the letter case of its input, so it
  works on the text as a list of Unicode code points. The library functions
  \<^verbatim>\<open>str.lower\<close> and \<^verbatim>\<open>str.strip\<close> are parameters of the FAQ matcher; \<open>lower\<close> and
  \<open>strip\<close> below are what they compute on ASCII text.
\<close>

datatype error =
  ApiError | TypeError | UnicodeEncodeError | ValueError string | DuplicateKeyError | StoreError

type_synonym codepoint = nat

definition codepoints :: "string \<Rightarrow> codepoint list" where
  "codepoints s = map of_char s"










section \<open>Prompts: \<^verbatim>\<open>app/utils/prompts.py\<close>\<close>

definition ESCALATION_TRIGGER_PHRASES :: "string list" where
  "ESCALATION_TRIGGER_PHRASES =
     [''i'm unable to answer'',
      ''i don't know'',
      ''please contact support'',
      ''escalate'',
      ''sorry, i cannot assist with that'',
      ''not sure'',
      ''could you please clarify'',
      ''unable to help'',
      ''can't help'',
      ''try to help'',
      ''clarify or rephrase your question:'',
      ''do not have that information'',
      ''i'm here to assist specifically with questions about himanshu'',
      ''for other topics, i may have limited knowledge'',
      ''please clarify or ask about himanshu'']"

text \<open>
  \<^verbatim>\<open>re.compile(pattern, re.IGNORECASE)\<close> for a pattern of ASCII characters without
  regular-expression operators: the compiled pattern matches its own text, letter case
  ignored. Every trigger phrase is such a pattern (lemma \<open>trigger_phrases_literal\<close>
  below), so a compiled pattern is modelled by the code points of its phrase.
\<close>

definition regex_operators :: "char list" where
  "regex_operators = [CHR ''.'', CHR ''^'', CHR ''$'', CHR ''*'', CHR ''+'', CHR ''?'',
     CHR ''{'', CHR ''}'', CHR ''['', CHR '']'', CHR 0x5C, CHR ''|'', CHR ''('', CHR '')'']"

definition ESCALATION_TRIGGER_PATTERNS :: "codepoint list list" where
  "ESCALATION_TRIGGER_PATTERNS = map (\<lambda>pattern. codepoints pattern) ESCALATION_TRIGGER_PHRASES"

definition is_ascii_letter :: "codepoint \<Rightarrow> bool" where
  "is_ascii_letter c \<longleftrightarrow> (65 \<le> c \<and> c \<le> 90) \<or> (97 \<le> c \<and> c \<le> 122)"

definition ascii_lower :: "codepoint \<Rightarrow> codepoint" where
  "ascii_lower c = (if 65 \<le> c \<and> c \<le> 90 then c + 32 else c)"

text \<open>
  What one ASCII code point \<open>p\<close> of a pattern compiled with \<^verbatim>\<open>re.IGNORECASE\<close> matches
  in a \<^verbatim>\<open>str\<close>. A letter matches its two cases; besides, \<^verbatim>\<open>i\<close> matches U+0130 and
  U+0131 (the dotted capital and the dotless small i), \<^verbatim>\<open>k\<close> matches U+212A (the
  Kelvin sign) and \<^verbatim>\<open>s\<close> matches U+017F (the long s). Any other code point matches
  itself only.
\<close>

definition ignorecase_match :: "codepoint \<Rightarrow> codepoint \<Rightarrow> bool" where
  "ignorecase_match p c =
     (if is_ascii_letter p then
        (let lo = ascii_lower p in
         c = lo \<or> c = lo - 32 \<or>
         (lo = 105 \<and> (c = 0x130 \<or> c = 0x131)) \<or>
         (lo = 107 \<and> c = 0x212A) \<or>
         (lo = 115 \<and> c = 0x17F))
      else c = p)"

text \<open>\<open>match_at p t\<close>: the pattern matches at the first position of the text.\<close>

fun match_at :: "codepoint list \<Rightarrow> codepoint list \<Rightarrow> bool" where
  "match_at [] t = True"
| "match_at (p # ps) [] = False"
| "match_at (p # ps) (c # cs) = (ignorecase_match p c \<and> match_at ps cs)"

text \<open>\<^verbatim>\<open>pattern.search(text)\<close>: a match at some position, tried from the left.\<close>

fun search :: "codepoint list \<Rightarrow> codepoint list \<Rightarrow> bool" where
  "search p [] = match_at p []"
| "search p (c # cs) = (if match_at p (c # cs) then True else search p cs)"

text \<open>The \<^verbatim>\<open>for pattern in ESCALATION_TRIGGER_PATTERNS\<close> loop with its early return.\<close>

fun scan_patterns :: "codepoint list list \<Rightarrow> codepoint list \<Rightarrow> bool" where
  "scan_patterns [] response_text = False"
| "scan_patterns (pattern # patterns) response_text =
     (if search pattern response_text then True else scan_patterns patterns response_text)"

text \<open>
  \<^verbatim>\<open>str.lower()\<close> on one code point. It is Python's where the result holds an
  ASCII code point: the capital letters, U+0130 (which gives \<^verbatim>\<open>i\<close> and U+0307) and
  U+212A (which gives \<^verbatim>\<open>k\<close>). Every other code point is left as it is; Python
  replaces some of them, by code points outside ASCII. The lower-cased text is only
  searched for ASCII strings, which cannot tell the difference.
\<close>

definition lower_codepoint :: "codepoint \<Rightarrow> codepoint list" where
  "lower_codepoint c =
     (if 65 \<le> c \<and> c \<le> 90 then [c + 32]
      else if c = 0x130 then [105, 0x307]
      else if c = 0x212A then [107]
      else [c])"

definition str_lower :: "codepoint list \<Rightarrow> codepoint list" where
  "str_lower s = concat (map lower_codepoint s)"

definition fallback_indicators :: "string list" where
  "fallback_indicators = [''sorry'', ''unable to help'', ''expertise is limited'', ''please clarify'']"

text \<open>The line that \<^verbatim>\<open>print\<close> writes to the standard output.\<close>

definition diagnostic_line :: "codepoint list \<Rightarrow> codepoint list" where
  "diagnostic_line response_text =
     codepoints ''Potential fallback response detected for escalation: '' @ response_text"

text \<open>
  \<^verbatim>\<open>is_unsatisfactory\<close>. It gives the value returned, or the exception raised, and the
  lines printed. \<open>stdout_encodes\<close> says which lines the encoding of the standard output
  can write: \<^verbatim>\<open>print\<close> raises UnicodeEncodeError on any other, before it writes.
  \<^verbatim>\<open>indicator in lowered\<close> is a substring search.
\<close>

definition is_unsatisfactory ::
  "(codepoint list \<Rightarrow> bool) \<Rightarrow> codepoint list \<Rightarrow> (error + bool) \<times> codepoint list list" where
  "is_unsatisfactory stdout_encodes response_text =
     (if scan_patterns ESCALATION_TRIGGER_PATTERNS response_text then (Inr True, [])
      else
        (let lowered = str_lower response_text in
         if list_ex (\<lambda>indicator. sublist (codepoints indicator) lowered) fallback_indicators
         then
           (if stdout_encodes (diagnostic_line response_text)
            then (Inr False, [diagnostic_line response_text])
            else (Inl UnicodeEncodeError, []))
         else (Inr False, [])))"

text \<open>
  The claim's reading of a match: the phrase occurs in the text as a run of code points,
  each matched without regard to case.
\<close>

definition ignorecase_occurs :: "codepoint list \<Rightarrow> codepoint list \<Rightarrow> bool" where
  "ignorecase_occurs p t \<longleftrightarrow>
     (\<exists>pre mid suf. t = pre @ mid @ suf \<and> list_all2 ignorecase_match p mid)"

definition PERSONAL_PROFILE_CONTENT :: string where
  "PERSONAL_PROFILE_CONTENT =
     ''\<newline>'' @
     ''Himanshu Chitoria is a Computer Science student at VIT Bhopal and pursuing a part-time Bachelor of Science in Data Science at IIT Madras. \<newline>'' @
     ''Specializes in full-stack web development, healthcare technology, and cybersecurity.\<newline>'' @
     ''Skills: Python, JavaScript (React.js, Next.js), Node.js, REST APIs, MongoDB, AWS, TensorFlow, OpenCV.\<newline>'' @
     ''Internships at IDEMIA, Hitachi, ValU5Healthcare involving facial recognition, AWS automation, secure healthcare APIs.\<newline>'' @
     ''Notable projects: DevSync (real-time collaboration), FinSave (AI finance tracker), TrendHire (AI resume optimizer).\<newline>'' @
     ''Certifications in Data Fundamentals (IBM), Cloud Computing (NPTEL), Python Essentials (Vityarthi), and Networking (Google).\<newline>'' @
     ''Fluent in Hindi, English, and Japanese.\<newline>''"

record message =
  role :: string
  content :: string

definition system_content :: string where
  "system_content =
     ''You are the personal assistant of Himanshu Chitoria, a Computer Science student at VIT Bhopal and part-time Data Science student at IIT Madras. '' @
     ''Only answer questions related to Himanshu's skills, projects, internships, certifications, education, and interests based on the knowledge below. '' @
     ''Do NOT discuss yourself or any AI model information. Politely decline unrelated questions.\<newline>'' @
     ''Knowledge base:\<newline>'' @ PERSONAL_PROFILE_CONTENT"

text \<open>
  The \<^verbatim>\<open>for i in range(0, len(conversation_history), 2)\<close> loop, with the messages
  appended so far as accumulator. Both indices are below the length where they are read.
\<close>

function history_loop :: "string list \<Rightarrow> nat \<Rightarrow> message list \<Rightarrow> message list" where
  "history_loop conversation_history i messages =
     (if i < length conversation_history then
        (let user_msg = conversation_history ! i in
         if i + 1 < length conversation_history then
           (let assistant_msg = conversation_history ! (i + 1) in
            history_loop conversation_history (i + 2)
              (messages @ [\<lparr>role = ''user'', content = user_msg\<rparr>,
                           \<lparr>role = ''assistant'', content = assistant_msg\<rparr>]))
         else
           history_loop conversation_history (i + 2)
             (messages @ [\<lparr>role = ''user'', content = user_msg\<rparr>]))
      else messages)"
  by pat_completeness auto
termination
  by (relation "measure (\<lambda>(h, i, m). length h - i)") auto

declare history_loop.simps [simp del]

definition build_conversational_prompt :: "string \<Rightarrow> string list \<Rightarrow> message list" where
  "build_conversational_prompt user_query conversation_history =
     (let messages = [\<lparr>role = ''system'', content = system_content\<rparr>];
          messages = history_loop conversation_history 0 messages
      in messages @ [\<lparr>role = ''user'', content = user_query\<rparr>])"

text \<open>The role the claim gives to the history item at position \<open>i\<close>.\<close>

definition alternating_role :: "nat \<Rightarrow> string" where
  "alternating_role i = (if even i then ''user'' else ''assistant'')"

section \<open>Escalation notes: \<^verbatim>\<open>app/services/escalation_handler.py\<close>\<close>






section \<open>The model client: \<^verbatim>\<open>app/services/llm_integration.py\<close>\<close>

text \<open>The records written through \<^verbatim>\<open>logging\<close> are left out of the model.\<close>











section \<open>The FAQ matcher: \<^verbatim>\<open>app/services/faq_handler.py\<close>\<close>






section \<open>Configuration: \<^verbatim>\<open>app/config.py\<close>\<close>

record settings =
  session_expiration_minutes :: int

text \<open>The defaults of \<^verbatim>\<open>Settings\<close>, where the environment sets nothing.\<close>

definition default_settings :: settings where
  "default_settings = \<lparr>session_expiration_minutes = 1440\<rparr>"

section \<open>Sessions: \<^verbatim>\<open>app/services/session_manager.py\<close>\<close>

text \<open>
  A \<^verbatim>\<open>datetime\<close> is a number of microseconds since the epoch and a \<^verbatim>\<open>timedelta\<close> a
  number of microseconds, the resolution of both in Python. The store is taken to keep
  every value as it was written, and every store call succeeds unless a parameter of
  the operation says that it fails.
\<close>

type_synonym datetime = int
type_synonym timedelta = int


definition days :: "int \<Rightarrow> timedelta" where
  "days n = n * 86400000000"

record session =
  session_id :: string
  created_at :: datetime
  query_history :: "string list"

text \<open>
  A document of the sessions collection, under its key \<^verbatim>\<open>_id\<close>; the fields no modelled
  operation reads (\<^verbatim>\<open>conversation_history\<close>, \<^verbatim>\<open>contextual_memory\<close>) are left out.
  A document of the conversations collection may lack either text, as the reading loop
  of \<^verbatim>\<open>get_session\<close> allows.
\<close>

record session_doc =
  doc_created_at :: datetime
  last_active_at :: datetime

record conversation_doc =
  doc_session_id :: string
  doc_user_query :: "string option"
  doc_bot_response :: "string option"
  doc_timestamp :: datetime

text \<open>What an operation does in order: lock events, writes to the cache, calls of the
  store.\<close>

datatype event = LockAcquire | LockRelease | CacheWrite string | StoreCall string

text \<open>
  The session manager and the store it talks to. \<open>sessions\<close> is the cache
  \<^verbatim>\<open>_sessions\<close>, \<open>locked\<close> says whether \<^verbatim>\<open>_lock\<close> is held. The sessions collection is
  keyed by \<^verbatim>\<open>_id\<close>; the conversations collection is a list in insertion order.
\<close>

record state =
  sessions :: "string \<rightharpoonup> session"
  locked :: bool
  expiration_delta :: timedelta
  sessions_collection :: "string \<rightharpoonup> session_doc"
  conversations_collection :: "conversation_doc list"
  trace :: "event list"

text \<open>
  An operation returns a value, raises, or never returns: \<open>Blocked\<close> is a task that
  awaits the lock for ever.
\<close>

datatype 'a outcome = Returned 'a | Raised error | Blocked

text \<open>
  \<^verbatim>\<open>SessionManager.__init__\<close>, over a store with the given contents. The line that reads
  \<^verbatim>\<open>settings.session_expiration_minutes\<close> is commented out in the source; the window is
  \<^verbatim>\<open>timedelta(days=365*10)\<close>.
\<close>

definition SessionManager_init ::
  "settings \<Rightarrow> (string \<rightharpoonup> session_doc) \<Rightarrow> conversation_doc list \<Rightarrow> state" where
  "SessionManager_init settings session_docs conversation_docs =
     \<lparr>sessions = Map.empty, locked = False, expiration_delta = days (365 * 10),
      sessions_collection = session_docs, conversations_collection = conversation_docs,
      trace = []\<rparr>"

text \<open>
  \<^verbatim>\<open>async with self._lock\<close>. An \<^verbatim>\<open>asyncio.Lock\<close> is not reentrant: a task that awaits
  the lock while the lock is held waits until the holder releases it. Every operation
  below is one task run on its own, so a lock found held is held by the operation itself
  (or was left held by an operation that blocked), and the wait never ends: \<open>None\<close>.
\<close>

definition acquire :: "state \<Rightarrow> state option" where
  "acquire st =
     (if locked st then None else Some (st\<lparr>locked := True, trace := trace st @ [LockAcquire]\<rparr>))"

definition release :: "state \<Rightarrow> state" where
  "release st = st\<lparr>locked := False, trace := trace st @ [LockRelease]\<rparr>"

definition cache_write :: "string \<Rightarrow> state \<Rightarrow> state" where
  "cache_write key st = st\<lparr>trace := trace st @ [CacheWrite key]\<rparr>"

definition store_call :: "string \<Rightarrow> state \<Rightarrow> state" where
  "store_call name st = st\<lparr>trace := trace st @ [StoreCall name]\<rparr>"


text \<open>\<^verbatim>\<open>delete_session\<close>: the cache entry goes under the lock, the store calls follow
  the release.\<close>

definition delete_session :: "state \<Rightarrow> string \<Rightarrow> unit outcome \<times> state" where
  "delete_session st sid =
     (case acquire st of
        None \<Rightarrow> (Blocked, st)
      | Some st \<Rightarrow>
          (let st = (if sessions st sid \<noteq> None
                     then cache_write sid (st\<lparr>sessions := (sessions st)(sid := None)\<rparr>)
                     else st);
               st = release st;
               st = store_call ''sessions_collection.delete_one''
                      (st\<lparr>sessions_collection := (sessions_collection st)(sid := None)\<rparr>);
               st = store_call ''conversations_collection.delete_many''
                      (st\<lparr>conversations_collection :=
                            filter (\<lambda>d. doc_session_id d \<noteq> sid) (conversations_collection st)\<rparr>)
           in (Returned (), st)))"

text \<open>The test of \<^verbatim>\<open>get_session\<close> on a cached session.\<close>

definition is_expired :: "state \<Rightarrow> session \<Rightarrow> datetime \<Rightarrow> bool" where
  "is_expired st session now \<longleftrightarrow> now - created_at session > expiration_delta st"

text \<open>The reading loop: each entry gives its user query, then its bot response.\<close>

fun flatten_entries :: "conversation_doc list \<Rightarrow> string list" where
  "flatten_entries [] = []"
| "flatten_entries (entry # entries) =
     (case doc_user_query entry of Some q \<Rightarrow> [q] | None \<Rightarrow> []) @
     (case doc_bot_response entry of Some r \<Rightarrow> [r] | None \<Rightarrow> []) @
     flatten_entries entries"

text \<open>
  \<^verbatim>\<open>conversations_collection.find({"session_id": sid}).sort("timestamp")\<close>: the
  entries of the session by ascending timestamp, entries of equal timestamp in insertion
  order.
\<close>

definition find_sorted :: "state \<Rightarrow> string \<Rightarrow> conversation_doc list" where
  "find_sorted st sid =
     sort_key doc_timestamp (filter (\<lambda>d. doc_session_id d = sid) (conversations_collection st))"

text \<open>
  \<^verbatim>\<open>get_session\<close>. For a cached session that has expired it calls
  \<^verbatim>\<open>delete_session\<close> inside its own \<^verbatim>\<open>async with\<close> block.
\<close>

definition get_session :: "state \<Rightarrow> string \<Rightarrow> datetime \<Rightarrow> session option outcome \<times> state" where
  "get_session st sid now =
     (case acquire st of
        None \<Rightarrow> (Blocked, st)
      | Some st \<Rightarrow>
          (case sessions st sid of
             Some session \<Rightarrow>
               if is_expired st session now then
                 (case delete_session st sid of
                    (Returned u, st) \<Rightarrow> (Returned None, release st)
                  | (Raised e, st) \<Rightarrow> (Raised e, release st)
                  | (Blocked, st) \<Rightarrow> (Blocked, st))
               else (Returned (Some session), release st)
           | None \<Rightarrow>
               (let st = release st;
                    st = store_call ''sessions_collection.find_one'' st
                in case sessions_collection st sid of
                     None \<Rightarrow> (Returned None, st)
                   | Some session_doc \<Rightarrow>
                       (let st = store_call ''conversations_collection.find'' st;
                            conversation_docs = find_sorted st sid;
                            history = flatten_entries conversation_docs;
                            loaded_session =
                              \<lparr>session_id = sid, created_at = doc_created_at session_doc,
                               query_history = history\<rparr>
                        in case acquire st of
                             None \<Rightarrow> (Blocked, st)
                           | Some st \<Rightarrow>
                               (Returned (Some loaded_session),
                                release (cache_write sid
                                  (st\<lparr>sessions := (sessions st)(sid \<mapsto> loaded_session)\<rparr>)))))))"

text \<open>
  What one call of \<^verbatim>\<open>add_to_conversation\<close> reads from its environment: the clock for a
  nested \<^verbatim>\<open>get_session\<close>, the clock for the entry's timestamp and for
  \<^verbatim>\<open>last_active_at\<close>, and whether each of the two store writes fails.
\<close>

record turn_env =
  get_now :: datetime
  insert_now :: datetime
  insert_fails :: bool
  update_now :: datetime
  update_fails :: bool

text \<open>
  \<^verbatim>\<open>add_to_conversation\<close>. The lookup, the nested \<^verbatim>\<open>get_session\<close> and both appends
  are inside the \<^verbatim>\<open>async with\<close> block; the two store writes follow the release. The
  appends change the session object the cache holds under \<open>sid\<close>.
\<close>

definition lookup_or_reload ::
  "state \<Rightarrow> string \<Rightarrow> datetime \<Rightarrow> session outcome \<times> state" where
  "lookup_or_reload st sid now =
     (case sessions st sid of
        Some session \<Rightarrow> (Returned session, st)
      | None \<Rightarrow>
          (case get_session st sid now of
             (Returned (Some session), st) \<Rightarrow> (Returned session, st)
           | (Returned None, st) \<Rightarrow> (Raised (ValueError ''Session not found''), st)
           | (Raised e, st) \<Rightarrow> (Raised e, st)
           | (Blocked, st) \<Rightarrow> (Blocked, st)))"

definition store_turn ::
  "state \<Rightarrow> string \<Rightarrow> string \<Rightarrow> string \<Rightarrow> turn_env \<Rightarrow> unit outcome \<times> state" where
  "store_turn st sid user_query bot_response env =
     (let conversation_doc =
            \<lparr>doc_session_id = sid, doc_user_query = Some user_query,
             doc_bot_response = Some bot_response, doc_timestamp = insert_now env\<rparr>;
          st = store_call ''conversations_collection.insert_one'' st
      in if insert_fails env then (Raised StoreError, st)
         else
           (let st = st\<lparr>conversations_collection :=
                          conversations_collection st @ [conversation_doc]\<rparr>;
                st = store_call ''sessions_collection.update_one'' st
            in if update_fails env then (Raised StoreError, st)
               else
                 (Returned (),
                  (case sessions_collection st sid of
                     None \<Rightarrow> st
                   | Some d \<Rightarrow>
                       st\<lparr>sessions_collection :=
                            (sessions_collection st)
                              (sid \<mapsto> d\<lparr>last_active_at := update_now env\<rparr>)\<rparr>))))"

definition add_to_conversation ::
  "state \<Rightarrow> string \<Rightarrow> string \<Rightarrow> string \<Rightarrow> turn_env \<Rightarrow> unit outcome \<times> state" where
  "add_to_conversation st sid user_query bot_response env =
     (case acquire st of
        None \<Rightarrow> (Blocked, st)
      | Some st \<Rightarrow>
          (case lookup_or_reload st sid (get_now env) of
             (Blocked, st) \<Rightarrow> (Blocked, st)
           | (Raised e, st) \<Rightarrow> (Raised e, release st)
           | (Returned session, st) \<Rightarrow>
               (let session = session\<lparr>query_history := query_history session @ [user_query]\<rparr>;
                    session = session\<lparr>query_history := query_history session @ [bot_response]\<rparr>;
                    st = cache_write sid (st\<lparr>sessions := (sessions st)(sid \<mapsto> session)\<rparr>);
                    st = release st
                in store_turn st sid user_query bot_response env)))"




text \<open>
  The lock discipline on a trace: no store call while the lock is held, and no cache
  write while it is not. The flag says whether the lock is held before the trace.
\<close>

fun store_calls_outside_lock :: "bool \<Rightarrow> event list \<Rightarrow> bool" where
  "store_calls_outside_lock held [] = True"
| "store_calls_outside_lock held (LockAcquire # es) = store_calls_outside_lock True es"
| "store_calls_outside_lock held (LockRelease # es) = store_calls_outside_lock False es"
| "store_calls_outside_lock held (CacheWrite key # es) = store_calls_outside_lock held es"
| "store_calls_outside_lock held (StoreCall name # es) =
     (if held then False else store_calls_outside_lock held es)"

fun cache_writes_under_lock :: "bool \<Rightarrow> event list \<Rightarrow> bool" where
  "cache_writes_under_lock held [] = True"
| "cache_writes_under_lock held (LockAcquire # es) = cache_writes_under_lock True es"
| "cache_writes_under_lock held (LockRelease # es) = cache_writes_under_lock False es"
| "cache_writes_under_lock held (CacheWrite key # es) =
     (if held then cache_writes_under_lock held es else False)"
| "cache_writes_under_lock held (StoreCall name # es) = cache_writes_under_lock held es"




definition empty_manager :: state where
  "empty_manager = SessionManager_init default_settings Map.empty []"

section \<open>Lemmas on strings and prompts\<close>

lemma trigger_phrases_literal:
  "list_all (\<lambda>phrase. list_all (\<lambda>c. c \<notin> set regex_operators \<and> (of_char c :: nat) < 128) phrase)
     ESCALATION_TRIGGER_PHRASES"
  by code_simp

lemmas detector_eval =
  ESCALATION_TRIGGER_PATTERNS_def ESCALATION_TRIGGER_PHRASES_def codepoints_def
  ignorecase_match_def is_ascii_letter_def ascii_lower_def

lemma match_at_iff:
  "match_at p t \<longleftrightarrow> (\<exists>mid suf. t = mid @ suf \<and> list_all2 ignorecase_match p mid)"
proof (induction p t rule: match_at.induct)
  case (1 t)
  show ?case by simp
next
  case (2 p ps)
  show ?case by (simp add: list_all2_Cons1)
next
  case (3 p ps c cs)
  have "(\<exists>mid suf. c # cs = mid @ suf \<and> list_all2 ignorecase_match (p # ps) mid) \<longleftrightarrow>
        (ignorecase_match p c \<and> (\<exists>mid suf. cs = mid @ suf \<and> list_all2 ignorecase_match ps mid))"
    by (auto simp: list_all2_Cons1 Cons_eq_append_conv)
  with 3 show ?case by simp
qed

lemma search_occurs: "search p t \<longleftrightarrow> ignorecase_occurs p t"
proof (induction t)
  case Nil
  show ?case by (simp add: match_at_iff ignorecase_occurs_def)
next
  case (Cons c cs)
  have "ignorecase_occurs p (c # cs) \<longleftrightarrow> match_at p (c # cs) \<or> ignorecase_occurs p cs"
  proof
    assume "ignorecase_occurs p (c # cs)"
    then obtain pre mid suf where eq: "c # cs = pre @ mid @ suf"
      and m: "list_all2 ignorecase_match p mid"
      unfolding ignorecase_occurs_def by blast
    show "match_at p (c # cs) \<or> ignorecase_occurs p cs"
    proof (cases pre)
      case Nil
      with eq m show ?thesis unfolding match_at_iff by auto
    next
      case (Cons a pre')
      with eq have "cs = pre' @ mid @ suf" by simp
      with m show ?thesis unfolding ignorecase_occurs_def by blast
    qed
  next
    assume "match_at p (c # cs) \<or> ignorecase_occurs p cs"
    then show "ignorecase_occurs p (c # cs)"
    proof
      assume "match_at p (c # cs)"
      then obtain mid suf where "c # cs = [] @ mid @ suf" "list_all2 ignorecase_match p mid"
        unfolding match_at_iff by auto
      then show ?thesis unfolding ignorecase_occurs_def by blast
    next
      assume "ignorecase_occurs p cs"
      then obtain pre mid suf where "cs = pre @ mid @ suf" "list_all2 ignorecase_match p mid"
        unfolding ignorecase_occurs_def by blast
      then have "c # cs = (c # pre) @ mid @ suf" by simp
      with \<open>list_all2 ignorecase_match p mid\<close> show ?thesis
        unfolding ignorecase_occurs_def by blast
    qed
  qed
  with Cons show ?case by simp
qed

lemma scan_patterns_ex:
  "scan_patterns ps t \<longleftrightarrow> (\<exists>p. p \<in> set ps \<and> ignorecase_occurs p t)"
  by (induction ps) (auto simp: search_occurs)

lemma scan_trigger_patterns:
  "scan_patterns ESCALATION_TRIGGER_PATTERNS t \<longleftrightarrow>
     (\<exists>phrase. phrase \<in> set ESCALATION_TRIGGER_PHRASES \<and>
        ignorecase_occurs (codepoints phrase) t)"
  by (auto simp: scan_patterns_ex ESCALATION_TRIGGER_PATTERNS_def)

lemma history_loop_eq:
  "even i \<Longrightarrow>
   history_loop h i ms =
     ms @ map (\<lambda>j. \<lparr>role = alternating_role j, content = h ! j\<rparr>) [i..<length h]"
proof (induction h i ms rule: history_loop.induct)
  case (1 h i ms)
  show ?case
  proof (cases "i < length h")
    case False
    then show ?thesis by (simp add: history_loop.simps [of h i ms])
  next
    case True
    show ?thesis
    proof (cases "i + 1 < length h")
      case True
      with \<open>i < length h\<close> have upt: "[i..<length h] = i # Suc i # [i + 2..<length h]"
        by (simp add: upt_conv_Cons)
      from 1(1) [OF \<open>i < length h\<close> refl True refl] 1(3)
      have "history_loop h (i + 2)
              (ms @ [\<lparr>role = ''user'', content = h ! i\<rparr>,
                     \<lparr>role = ''assistant'', content = h ! (i + 1)\<rparr>]) =
            (ms @ [\<lparr>role = ''user'', content = h ! i\<rparr>,
                   \<lparr>role = ''assistant'', content = h ! (i + 1)\<rparr>]) @
            map (\<lambda>j. \<lparr>role = alternating_role j, content = h ! j\<rparr>) [i + 2..<length h]"
        by simp
      with True \<open>i < length h\<close> 1(3) upt show ?thesis
        by (simp add: history_loop.simps [of h i ms] alternating_role_def)
    next
      case False
      with \<open>i < length h\<close> have upt: "[i..<length h] = [i]" "[i + 2..<length h] = []"
        by (simp_all add: upt_conv_Cons)
      from 1(2) [OF \<open>i < length h\<close> refl False] 1(3)
      have "history_loop h (i + 2) (ms @ [\<lparr>role = ''user'', content = h ! i\<rparr>]) =
            (ms @ [\<lparr>role = ''user'', content = h ! i\<rparr>]) @
            map (\<lambda>j. \<lparr>role = alternating_role j, content = h ! j\<rparr>) [i + 2..<length h]"
        by simp
      with False \<open>i < length h\<close> 1(3) upt show ?thesis
        by (simp add: history_loop.simps [of h i ms] alternating_role_def)
    qed
  qed
qed

section \<open>Claims on the prompts\<close>

text \<open>
  C4, as amended. The escalation detector \<open>is_unsatisfactory\<close> is a deterministic
  function of the response text and of what the standard output can encode. It returns
  true, printing nothing, exactly when some trigger phrase matches the text without
  regard to case. When no phrase matches it returns false, but it is not free of
  effects: if the lower-cased text holds one of the four fallback indicators it first
  prints one line that holds the text, and where the standard output cannot encode that
  line it raises UnicodeEncodeError instead of returning. The text
  \<^verbatim>\<open>I don't know the answer\<close> gives true and the empty text gives false, both without
  output.
\<close>

theorem is_unsatisfactory_value_and_output:
  "is_unsatisfactory stdout_encodes response_text =
     (if (\<exists>phrase. phrase \<in> set ESCALATION_TRIGGER_PHRASES \<and>
            ignorecase_occurs (codepoints phrase) response_text)
      then (Inr True, [])
      else if (\<exists>indicator. indicator \<in> set fallback_indicators \<and>
                 sublist (codepoints indicator) (str_lower response_text))
      then (if stdout_encodes (diagnostic_line response_text)
            then (Inr False, [diagnostic_line response_text])
            else (Inl UnicodeEncodeError, []))
      else (Inr False, [])) \<and>
   is_unsatisfactory stdout_encodes (codepoints ''I don't know the answer'') = (Inr True, []) \<and>
   is_unsatisfactory stdout_encodes [] = (Inr False, [])"
proof -
  have general: "is_unsatisfactory stdout_encodes response_text =
     (if (\<exists>phrase. phrase \<in> set ESCALATION_TRIGGER_PHRASES \<and>
            ignorecase_occurs (codepoints phrase) response_text)
      then (Inr True, [])
      else if (\<exists>indicator. indicator \<in> set fallback_indicators \<and>
                 sublist (codepoints indicator) (str_lower response_text))
      then (if stdout_encodes (diagnostic_line response_text)
            then (Inr False, [diagnostic_line response_text])
            else (Inl UnicodeEncodeError, []))
      else (Inr False, []))"
    unfolding is_unsatisfactory_def scan_trigger_patterns list_ex_iff Bex_def Let_def
    by (rule refl)
  have "search (codepoints ''i don't know'') (codepoints ''I don't know the answer'')"
    by (simp add: detector_eval)
  then have "ignorecase_occurs (codepoints ''i don't know'')
               (codepoints ''I don't know the answer'')"
    by (simp only: search_occurs)
  moreover have "''i don't know'' \<in> set ESCALATION_TRIGGER_PHRASES"
    by (simp add: ESCALATION_TRIGGER_PHRASES_def)
  ultimately have "scan_patterns ESCALATION_TRIGGER_PATTERNS
                     (codepoints ''I don't know the answer'')"
    unfolding scan_trigger_patterns by blast
  then have yes:
    "is_unsatisfactory stdout_encodes (codepoints ''I don't know the answer'') = (Inr True, [])"
    by (simp add: is_unsatisfactory_def)
  have "\<not> scan_patterns ESCALATION_TRIGGER_PATTERNS []"
    by (simp add: detector_eval)
  moreover have "\<not> list_ex (\<lambda>indicator. sublist (codepoints indicator) (str_lower []))
           fallback_indicators"
    by (simp add: fallback_indicators_def str_lower_def codepoints_def)
  ultimately have no: "is_unsatisfactory stdout_encodes [] = (Inr False, [])"
    by (simp add: is_unsatisfactory_def)
  from general yes no show ?thesis by (intro conjI)
qed

text \<open>
  The theorem at a text with the long s, which \<^verbatim>\<open>re.IGNORECASE\<close> matches against
  \<^verbatim>\<open>s\<close>, and at a text that holds neither a phrase nor an indicator.
\<close>

theorem is_unsatisfactory_value_and_output_witness:
  "ignorecase_occurs (codepoints ''escalate'') [101, 0x17F, 99, 97, 108, 97, 116, 101] \<and>
   is_unsatisfactory (\<lambda>line. True) [101, 0x17F, 99, 97, 108, 97, 116, 101] = (Inr True, []) \<and>
   is_unsatisfactory (\<lambda>line. True) (codepoints ''Hello'') = (Inr False, [])"
proof -
  have "search (codepoints ''escalate'') [101, 0x17F, 99, 97, 108, 97, 116, 101]"
    by (simp add: detector_eval)
  then have occ:
    "ignorecase_occurs (codepoints ''escalate'') [101, 0x17F, 99, 97, 108, 97, 116, 101]"
    by (simp only: search_occurs)
  have "''escalate'' \<in> set ESCALATION_TRIGGER_PHRASES"
    by (simp add: ESCALATION_TRIGGER_PHRASES_def)
  with occ have
    "\<exists>phrase. phrase \<in> set ESCALATION_TRIGGER_PHRASES \<and>
       ignorecase_occurs (codepoints phrase) [101, 0x17F, 99, 97, 108, 97, 116, 101]"
    by blast
  with is_unsatisfactory_value_and_output
         [of "\<lambda>line. True" "[101, 0x17F, 99, 97, 108, 97, 116, 101]"]
  have yes: "is_unsatisfactory (\<lambda>line. True) [101, 0x17F, 99, 97, 108, 97, 116, 101] =
    (Inr True, [])"
    by simp
  have "\<not> scan_patterns ESCALATION_TRIGGER_PATTERNS (codepoints ''Hello'')"
    by (simp add: detector_eval)
  moreover have "\<not> list_ex (\<lambda>indicator. sublist (codepoints indicator)
                     (str_lower (codepoints ''Hello''))) fallback_indicators"
    by (simp add: fallback_indicators_def str_lower_def lower_codepoint_def codepoints_def
        sublist_code)
  ultimately have no: "is_unsatisfactory (\<lambda>line. True) (codepoints ''Hello'') = (Inr False, [])"
    by (simp add: is_unsatisfactory_def)
  from occ yes no show ?thesis by (intro conjI)
qed

text \<open>
  The claim as stated fails: on \<^verbatim>\<open>Sorry.\<close> no phrase matches and the detector prints
  a line, and with a standard output that cannot encode the line it raises.
\<close>

theorem is_unsatisfactory_prints_counterexample:
  "is_unsatisfactory (\<lambda>line. True) (codepoints ''Sorry.'') =
     (Inr False,
      [codepoints ''Potential fallback response detected for escalation: Sorry.'']) \<and>
   is_unsatisfactory (\<lambda>line. False) (codepoints ''Sorry.'') = (Inl UnicodeEncodeError, [])"
proof -
  have scan: "\<not> scan_patterns ESCALATION_TRIGGER_PATTERNS (codepoints ''Sorry.'')"
    by (simp add: detector_eval)
  have low: "str_lower (codepoints ''Sorry.'') = codepoints ''sorry.''"
    by (simp add: str_lower_def lower_codepoint_def codepoints_def)
  have "sublist (codepoints ''sorry'') (codepoints ''sorry.'')"
    by (simp add: codepoints_def sublist_code)
  with low have ind: "list_ex (\<lambda>indicator. sublist (codepoints indicator)
                     (str_lower (codepoints ''Sorry.''))) fallback_indicators"
    by (simp add: fallback_indicators_def)
  have line: "diagnostic_line (codepoints ''Sorry.'') =
      codepoints ''Potential fallback response detected for escalation: Sorry.''"
    by (simp add: diagnostic_line_def codepoints_def)
  from scan ind line show ?thesis
    by (simp add: is_unsatisfactory_def)
qed

text \<open>
  C5. For every query and every history, of even or odd length, the context assembler
  gives the system message with the fixed persona block, then the history items in their
  order with the roles user, assistant, user, ..., then the new query as a user message.
  The last item of a history of odd length has an even index, so it is a user message:
  it is kept, and no reply is made up for it.
\<close>

theorem build_conversational_prompt_shape:
  "build_conversational_prompt user_query conversation_history =
     \<lparr>role = ''system'', content = system_content\<rparr> #
     map (\<lambda>i. \<lparr>role = alternating_role i, content = conversation_history ! i\<rparr>)
       [0..<length conversation_history] @
     [\<lparr>role = ''user'', content = user_query\<rparr>]"
  by (simp add: build_conversational_prompt_def history_loop_eq)

theorem build_conversational_prompt_shape_witness:
  "build_conversational_prompt ''q'' [''a'', ''b'', ''c''] =
     [\<lparr>role = ''system'', content = system_content\<rparr>,
      \<lparr>role = ''user'', content = ''a''\<rparr>,
      \<lparr>role = ''assistant'', content = ''b''\<rparr>,
      \<lparr>role = ''user'', content = ''c''\<rparr>,
      \<lparr>role = ''user'', content = ''q''\<rparr>]"
  using build_conversational_prompt_shape [of "''q''" "[''a'', ''b'', ''c'']"]
  by (simp add: alternating_role_def upt_conv_Cons)

section \<open>The escalation note\<close>










section \<open>Retry and fallback\<close>




section \<open>The FAQ matcher\<close>





section \<open>Sessions\<close>

lemma add_to_conversation_cached:
  assumes "\<not> locked st" and "sessions st sid = Some session"
  shows "add_to_conversation st sid q r env =
     store_turn
       (st\<lparr>sessions := (sessions st)
               (sid \<mapsto> session\<lparr>query_history := query_history session @ [q, r]\<rparr>),
           locked := False,
           trace := trace st @ [LockAcquire, CacheWrite sid, LockRelease]\<rparr>)
       sid q r env"
  using assms
  by (simp add: add_to_conversation_def acquire_def lookup_or_reload_def release_def
      cache_write_def Let_def)








lemma delete_session_trace:
  "store_calls_outside_lock False (trace (snd (delete_session empty_manager sid))) \<and>
   cache_writes_under_lock False (trace (snd (delete_session empty_manager sid)))"
  by (simp add: delete_session_def acquire_def release_def store_call_def cache_write_def
      empty_manager_def SessionManager_init_def Let_def)










lemma add_to_conversation_trace:
  assumes "\<not> locked st" and "sessions st sid = Some session"
    and "\<not> insert_fails env" and "\<not> update_fails env"
  shows "trace (snd (add_to_conversation st sid q r env)) =
     trace st @ [LockAcquire, CacheWrite sid, LockRelease,
                 StoreCall ''conversations_collection.insert_one'',
                 StoreCall ''sessions_collection.update_one'']"
  using assms
  by (cases "sessions_collection st sid")
     (simp_all add: add_to_conversation_cached store_turn_def store_call_def Let_def)






end
